theory Spec2Isabelle
  imports Main "HOL-Library.Word" "HOL-Library.Sublist"
begin

unbundle bit_operations_syntax

section \<open>The Jailhouse loader module (main.c)\<close>

text \<open>
  A shallow embedding of the loader's three operations, \<open>jailhouse_enable\<close>,
  \<open>jailhouse_disable\<close> and \<open>jailhouse_cell_create\<close>.  The module's static variables
  and the kernel resources it acquires form the record \<open>kstate\<close>; every kernel service
  whose outcome the module cannot determine (user copies, the mutex, firmware loading,
  remapping, CPU hotplug, the hypervisor's answers) is a field of the record \<open>env\<close>.
  The integers are those of the x86-64 build: \<open>unsigned long\<close> and \<open>__u64\<close> are
  64-bit words, \<open>__u32\<close> and \<open>unsigned int\<close> 32-bit words, \<open>__u8\<close> bytes; the
  \<open>int\<close> status codes never take part in arithmetic and are integers.
  The bytes stored in remapped memory are not modelled, only which regions are mapped.
\<close>

subsection \<open>Types\<close>

type_synonym u8 = "8 word"
type_synonym u32 = "32 word"
type_synonym u64 = "64 word"

definition EINTR :: int where "EINTR = 4"
definition ENOMEM :: int where "ENOMEM = 12"
definition EFAULT :: int where "EFAULT = 14"
definition EBUSY :: int where "EBUSY = 16"
definition EINVAL :: int where "EINVAL = 22"

record jailhouse_memory =
  phys_start :: u64
  virt_start :: u64
  mem_size :: u64
  access_flags :: u32

text \<open>\<open>struct jailhouse_system\<close>: the header of the system configuration.\<close>

record jailhouse_system =
  hypervisor_memory :: jailhouse_memory

text \<open>
  \<open>struct jailhouse_header\<close>, the fields the loader reads from the firmware image.
\<close>

record jailhouse_header =
  signature :: "u8 list"
  bss_end :: u64
  percpu_size :: u64
  entry :: u64

record firmware =
  fw_data :: jailhouse_header
  fw_size :: u64

record jailhouse_preload_image =
  source_address :: u64
  image_size :: u64
  target_address :: u64

record jailhouse_new_cell =
  config_address :: u64
  config_size :: u32
  num_preload_images :: u32

text \<open>
  \<open>struct jailhouse_cell_desc\<close>; \<open>name\<close> is the array
  \<open>char name[JAILHOUSE_CELL_NAME_MAXLEN + 1]\<close>.
\<close>

record jailhouse_cell_desc =
  name :: "u8 list"
  cpu_set_size :: u32
  num_memory_regions :: u32

text \<open>
  The buffer \<open>config\<close> points to: the descriptor, then the CPU mask
  (\<open>cpu_mask i\<close> is the byte \<open>cpu_mask[i]\<close>, whatever \<open>i\<close> is), then the memory
  regions, of which \<open>ram\<close> is the first, at offset
  \<open>sizeof(struct jailhouse_cell_desc) + cpu_set_size\<close>.
\<close>

record cell_config =
  cell :: jailhouse_cell_desc
  cpu_mask :: "nat \<Rightarrow> u8"
  ram :: jailhouse_memory

datatype msg =
    Opening
  | Closed
  | CpuUpFailed nat
  | CreatedCell "u8 list"

text \<open>Calls that leave the module and have no state of their own in \<open>kstate\<close>.\<close>

datatype event =
    CpuDown nat
  | CpuUp nat
  | HcCellCreate cell_config
  | Printk msg

text \<open>
  The static variables of the module (\<open>enabled\<close>, \<open>hypervisor_mem\<close>,
  \<open>offlined_cpus\<close>, \<open>call_done\<close>, \<open>error_code\<close>, \<open>lock\<close>) and the kernel state it
  changes: the module's reference count, the firmware handles and \<open>kmalloc\<close> buffers it
  holds, the addresses returned by \<open>ioremap\<close> and not yet unmapped, the CPUs online,
  and the trace of the calls above.
\<close>

record kstate =
  enabled :: bool
  hypervisor_mem :: u64
  offlined_cpus :: "nat set"
  call_done :: int
  error_code :: int
  lock_held :: bool
  module_refs :: int
  fw_held :: int
  kmalloced :: int
  mapped :: "u64 list"
  cpu_online_mask :: "nat set"
  trace :: "event list"

text \<open>
  What the module gets from outside.  The constants \<open>JAILHOUSE_SIGNATURE\<close>,
  \<open>JAILHOUSE_CELL_NAME_MAXLEN\<close> and the function \<open>jailhouse_system_config_size\<close> come
  from headers that are not part of the sources at hand, and are parameters here, as are
  \<open>nr_cpu_ids\<close> and \<open>num_possible_cpus\<close> of the machine.  \<open>ipi_order\<close> lists the CPUs
  in the order in which their \<open>on_each_cpu\<close> handlers store their result;
  \<open>cpu_up_result\<close> and \<open>cpu_down_result\<close> are what the hotplug calls return for a CPU.
\<close>

record env =
  JAILHOUSE_SIGNATURE :: "u8 list"
  JAILHOUSE_CELL_NAME_MAXLEN :: nat
  jailhouse_system_config_size :: "jailhouse_system \<Rightarrow> u64"
  nr_cpu_ids :: nat
  num_possible_cpus :: u32
  user_system :: "jailhouse_system option"
  copy_config_ok :: bool
  lock_ok :: bool
  try_module_get :: bool
  request_firmware :: "int \<times> firmware"
  ioremap_cache :: "u64 \<Rightarrow> u64 \<Rightarrow> u64"
  hv_entry :: "nat \<Rightarrow> int"
  hc_disable :: "nat \<Rightarrow> int"
  ipi_order :: "nat list"
  cpu_up_result :: "nat \<Rightarrow> int"
  cpu_down_result :: "nat \<Rightarrow> int"
  user_cell :: "jailhouse_new_cell option"
  user_image :: "jailhouse_preload_image option"
  kmalloc_ok :: bool
  user_config :: "cell_config option"
  copy_preload_ok :: bool
  hc_cell_create :: "cell_config \<Rightarrow> int"

subsection \<open>Kernel services\<close>

definition PAGE_SIZE :: u64 where
  "PAGE_SIZE = 4096"

definition PAGE_ALIGN :: "u64 \<Rightarrow> u64" where
  "PAGE_ALIGN x = (x + (PAGE_SIZE - 1)) AND NOT (PAGE_SIZE - 1)"

definition num_online_cpus :: "kstate \<Rightarrow> int" where
  "num_online_cpus s = int (card (cpu_online_mask s))"

definition cpu_online :: "kstate \<Rightarrow> nat \<Rightarrow> bool" where
  "cpu_online s cpu = (cpu \<in> cpu_online_mask s)"

definition printk :: "msg \<Rightarrow> kstate \<Rightarrow> kstate" where
  "printk m s = s\<lparr>trace := trace s @ [Printk m]\<rparr>"

definition iounmap :: "u64 \<Rightarrow> kstate \<Rightarrow> kstate" where
  "iounmap addr s = s\<lparr>mapped := remove1 addr (mapped s)\<rparr>"

text \<open>
  \<open>jailhouse_ioremap\<close> (x86): the address \<open>ioremap_cache\<close> returns, 0 for
  \<open>NULL\<close>; a mapping that succeeded is recorded.
\<close>

definition jailhouse_ioremap :: "env \<Rightarrow> u64 \<Rightarrow> u64 \<Rightarrow> kstate \<Rightarrow> u64 \<times> kstate" where
  "jailhouse_ioremap e start sz s =
     (let addr = ioremap_cache e start sz
      in (addr, if addr \<noteq> 0 then s\<lparr>mapped := addr # mapped s\<rparr> else s))"

definition mutex_unlock :: "kstate \<Rightarrow> kstate" where
  "mutex_unlock s = s\<lparr>lock_held := False\<rparr>"

definition module_put :: "kstate \<Rightarrow> kstate" where
  "module_put s = s\<lparr>module_refs := module_refs s - 1\<rparr>"

definition release_firmware :: "kstate \<Rightarrow> kstate" where
  "release_firmware s = s\<lparr>fw_held := fw_held s - 1\<rparr>"

definition kfree :: "kstate \<Rightarrow> kstate" where
  "kfree s = s\<lparr>kmalloced := kmalloced s - 1\<rparr>"

subsection \<open>The rendezvous\<close>

definition enter_hypervisor :: "env \<Rightarrow> nat \<Rightarrow> kstate \<Rightarrow> kstate" where
  "enter_hypervisor e cpu s =
     (let err = hv_entry e cpu;
          s1 = (if err \<noteq> 0 then s\<lparr>error_code := err\<rparr> else s)
      in s1\<lparr>call_done := call_done s1 + 1\<rparr>)"

definition leave_hypervisor :: "env \<Rightarrow> nat \<Rightarrow> kstate \<Rightarrow> kstate" where
  "leave_hypervisor e cpu s =
     (let err = hc_disable e cpu;
          s1 = (if err \<noteq> 0 then s\<lparr>error_code := err\<rparr> else s)
      in s1\<lparr>call_done := call_done s1 + 1\<rparr>)"

text \<open>
  \<open>on_each_cpu\<close>: the handler runs once on every CPU of \<open>ipi_order\<close>, in that order.
\<close>

definition on_each_cpu :: "env \<Rightarrow> (nat \<Rightarrow> kstate \<Rightarrow> kstate) \<Rightarrow> kstate \<Rightarrow> kstate" where
  "on_each_cpu e f s = fold f (ipi_order e) s"

definition cpu_relax :: "kstate \<Rightarrow> kstate" where
  "cpu_relax s = s"

text \<open>
  The busy wait \<open>while (atomic_read(&call_done) != num_online_cpus()) cpu_relax();\<close>.
  A wait that never ends is the value \<open>None\<close>.
\<close>

partial_function (option) wait_call_done :: "kstate \<Rightarrow> kstate option" where
  "wait_call_done s =
     (if call_done s \<noteq> num_online_cpus s then wait_call_done (cpu_relax s) else Some s)"

subsection \<open>CPU hotplug\<close>

text \<open>A request that succeeds changes the set of CPUs online; every request is traced.\<close>

definition cpu_up :: "env \<Rightarrow> nat \<Rightarrow> kstate \<Rightarrow> int \<times> kstate" where
  "cpu_up e cpu s =
     (let err = cpu_up_result e cpu;
          s = s\<lparr>trace := trace s @ [CpuUp cpu]\<rparr>
      in (err, if err = 0 then s\<lparr>cpu_online_mask := insert cpu (cpu_online_mask s)\<rparr> else s))"

definition cpu_down :: "env \<Rightarrow> nat \<Rightarrow> kstate \<Rightarrow> int \<times> kstate" where
  "cpu_down e cpu s =
     (let err = cpu_down_result e cpu;
          s = s\<lparr>trace := trace s @ [CpuDown cpu]\<rparr>
      in (err, if err = 0 then s\<lparr>cpu_online_mask := cpu_online_mask s - {cpu}\<rparr> else s))"

text \<open>\<open>for_each_cpu_mask\<close>: the bits set in the mask, below \<open>nr_cpu_ids\<close>, in order.\<close>

definition for_each_cpu_mask :: "env \<Rightarrow> nat set \<Rightarrow> nat list" where
  "for_each_cpu_mask e cpumask = filter (\<lambda>cpu. cpu \<in> cpumask) [0..<nr_cpu_ids e]"

subsection \<open>jailhouse_enable\<close>

definition error_unlock :: "int \<Rightarrow> kstate \<Rightarrow> kstate \<times> int" where
  "error_unlock err s = (mutex_unlock s, err)"

definition error_put_module :: "int \<Rightarrow> kstate \<Rightarrow> kstate \<times> int" where
  "error_put_module err s = error_unlock err (module_put s)"

definition error_release_fw :: "int \<Rightarrow> kstate \<Rightarrow> kstate \<times> int" where
  "error_release_fw err s = error_put_module err (release_firmware s)"

definition error_unmap :: "int \<Rightarrow> kstate \<Rightarrow> kstate \<times> int" where
  "error_unmap err s = error_release_fw err (iounmap (hypervisor_mem s) s)"

definition jailhouse_enable :: "env \<Rightarrow> kstate \<Rightarrow> (kstate \<times> int) option" where
  "jailhouse_enable e s =
     (case user_system e of
        None \<Rightarrow> Some (s, - EFAULT)
      | Some config_header \<Rightarrow>
          if \<not> lock_ok e then Some (s, - EINTR)
          else let s = s\<lparr>lock_held := True\<rparr> in
          if enabled s \<or> \<not> try_module_get e then Some (error_unlock (- EBUSY) s)
          else let s = s\<lparr>module_refs := module_refs s + 1\<rparr>;
                   (err, hypervisor) = request_firmware e in
          if err \<noteq> 0 then Some (error_put_module err s)
          else let s = s\<lparr>fw_held := fw_held s + 1\<rparr>;
                   header = fw_data hypervisor;
                   hv_mem = hypervisor_memory config_header in
          if signature header \<noteq> JAILHOUSE_SIGNATURE e then Some (error_release_fw (- EINVAL) s)
          else let hv_core_size = PAGE_ALIGN (bss_end header);
                   percpu_size' = ucast (num_possible_cpus e) * percpu_size header;
                   config_size' = jailhouse_system_config_size e config_header in
          if mem_size hv_mem \<le> hv_core_size + percpu_size' + config_size'
          then Some (error_release_fw (- EINVAL) s)
          else let (addr, s) = jailhouse_ioremap e (phys_start hv_mem) (mem_size hv_mem) s;
                   s = s\<lparr>hypervisor_mem := addr\<rparr> in
          if hypervisor_mem s = 0 then Some (error_release_fw (- EINVAL) s)
          else if \<not> copy_config_ok e then Some (error_unmap (- EFAULT) s)
          else let s = s\<lparr>error_code := 0\<rparr>;
                   s = s\<lparr>call_done := 0\<rparr>;
                   s = on_each_cpu e (enter_hypervisor e) s in
          (case wait_call_done s of
             None \<Rightarrow> None
           | Some s \<Rightarrow>
               if error_code s \<noteq> 0 then Some (error_unmap (error_code s) s)
               else let s = release_firmware s;
                        s = s\<lparr>enabled := True\<rparr>;
                        s = mutex_unlock s;
                        s = printk Opening s
                    in Some (s, 0)))"

subsection \<open>jailhouse_disable\<close>

fun cpus_up :: "env \<Rightarrow> nat list \<Rightarrow> kstate \<Rightarrow> kstate" where
  "cpus_up e [] s = s"
| "cpus_up e (cpu # cpus) s =
     (let (err, s) = cpu_up e cpu s
      in cpus_up e cpus (if err \<noteq> 0 then printk (CpuUpFailed cpu) s else s))"

definition jailhouse_disable :: "env \<Rightarrow> kstate \<Rightarrow> (kstate \<times> int) option" where
  "jailhouse_disable e s =
     (if \<not> lock_ok e then Some (s, - EINTR)
      else let s = s\<lparr>lock_held := True\<rparr> in
      if \<not> enabled s then Some (mutex_unlock s, - EINVAL)
      else let s = s\<lparr>error_code := 0\<rparr>;
               s = s\<lparr>call_done := 0\<rparr>;
               s = on_each_cpu e (leave_hypervisor e) s in
      case wait_call_done s of
        None \<Rightarrow> None
      | Some s \<Rightarrow>
          let err = error_code s in
          if err \<noteq> 0 then Some (mutex_unlock s, err)
          else let s = iounmap (hypervisor_mem s) s;
                   s = cpus_up e (for_each_cpu_mask e (offlined_cpus s)) s;
                   s = s\<lparr>enabled := False\<rparr>;
                   s = module_put s;
                   s = printk Closed s
               in Some (mutex_unlock s, err))"

subsection \<open>jailhouse_cell_create\<close>

text \<open>
  The body of the nested iteration over the CPU mask, for one bit.  \<open>cpu\<close> is an
  \<open>unsigned int\<close>.  The result \<open>Some err\<close> is the jump to \<open>kfree_config_out\<close>.
\<close>

definition cpu_mask_bit :: "env \<Rightarrow> cell_config \<Rightarrow> nat \<Rightarrow> nat \<Rightarrow> kstate \<Rightarrow> kstate \<times> int option" where
  "cpu_mask_bit e config mask_pos bit_pos s =
     (if cpu_mask config mask_pos AND push_bit bit_pos 1 = 0 then (s, None)
      else let cpu = (mask_pos * 8 + bit_pos) mod 2 ^ 32 in
        if cpu_online s cpu then
          (let (err, s) = cpu_down e cpu s
           in if err \<noteq> 0 then (s, Some err)
              else (s\<lparr>offlined_cpus := insert cpu (offlined_cpus s)\<rparr>, None))
        else (s, None))"

fun bit_loop :: "env \<Rightarrow> cell_config \<Rightarrow> nat \<Rightarrow> nat list \<Rightarrow> kstate \<Rightarrow> kstate \<times> int option" where
  "bit_loop e config mask_pos [] s = (s, None)"
| "bit_loop e config mask_pos (bit_pos # rest) s =
     (case cpu_mask_bit e config mask_pos bit_pos s of
        (s, Some err) \<Rightarrow> (s, Some err)
      | (s, None) \<Rightarrow> bit_loop e config mask_pos rest s)"

fun mask_loop :: "env \<Rightarrow> cell_config \<Rightarrow> nat list \<Rightarrow> kstate \<Rightarrow> kstate \<times> int option" where
  "mask_loop e config [] s = (s, None)"
| "mask_loop e config (mask_pos # rest) s =
     (case bit_loop e config mask_pos [0..<8] s of
        (s, Some err) \<Rightarrow> (s, Some err)
      | (s, None) \<Rightarrow> mask_loop e config rest s)"

text \<open>What \<open>printk\<close> prints for \<open>%s\<close>: the bytes before the first NUL.\<close>

definition c_string :: "u8 list \<Rightarrow> u8 list" where
  "c_string bs = takeWhile (\<lambda>b. b \<noteq> 0) bs"

definition kfree_config_out :: "int \<Rightarrow> kstate \<Rightarrow> kstate \<times> int" where
  "kfree_config_out err s = (kfree s, err)"

definition iounmap_out :: "u64 \<Rightarrow> int \<Rightarrow> kstate \<Rightarrow> kstate \<times> int" where
  "iounmap_out cell_mem err s = kfree_config_out err (iounmap cell_mem s)"

definition unlock_out :: "u64 \<Rightarrow> int \<Rightarrow> kstate \<Rightarrow> kstate \<times> int" where
  "unlock_out cell_mem err s = iounmap_out cell_mem err (mutex_unlock s)"

text \<open>
  \<open>config->name[JAILHOUSE_CELL_NAME_MAXLEN] = 0\<close> is a list update; the array has
  \<open>JAILHOUSE_CELL_NAME_MAXLEN + 1\<close> elements by its type.
\<close>

definition jailhouse_cell_create :: "env \<Rightarrow> kstate \<Rightarrow> kstate \<times> int" where
  "jailhouse_cell_create e s =
     (case user_cell e of
        None \<Rightarrow> (s, - EFAULT)
      | Some new_cell \<Rightarrow>
         (if num_preload_images new_cell \<noteq> 1 then (s, - EINVAL)
          else (case user_image e of
            None \<Rightarrow> (s, - EFAULT)
          | Some img \<Rightarrow>
             (if \<not> kmalloc_ok e then (s, - ENOMEM)
              else let s = s\<lparr>kmalloced := kmalloced s + 1\<rparr> in
              (case user_config e of
                None \<Rightarrow> kfree_config_out (- EFAULT) s
              | Some config \<Rightarrow>
                 (let config = config\<lparr>cell := (cell config)
                        \<lparr>name := (name (cell config))[JAILHOUSE_CELL_NAME_MAXLEN e := 0]\<rparr>\<rparr>
                  in
                  (case mask_loop e config [0..<unat (cpu_set_size (cell config))] s of
                    (s, Some err) \<Rightarrow> kfree_config_out err s
                  | (s, None) \<Rightarrow>
                      if num_memory_regions (cell config) < 1
                         \<or> mem_size (ram config) < 1024 * 1024
                         \<or> target_address img + image_size img > mem_size (ram config)
                      then kfree_config_out (- EINVAL) s
                      else let (cell_mem, s) =
                             jailhouse_ioremap e (phys_start (ram config)) (mem_size (ram config)) s
                      in
                      if cell_mem = 0 then kfree_config_out (- EBUSY) s
                      else if \<not> copy_preload_ok e then iounmap_out cell_mem (- EFAULT) s
                      else if \<not> lock_ok e then kfree_config_out (- EINTR) s
                      else let s = s\<lparr>lock_held := True\<rparr> in
                      if \<not> enabled s then unlock_out cell_mem (- EINVAL) s
                      else let err = hc_cell_create e config;
                               s = s\<lparr>trace := trace s @ [HcCellCreate config]\<rparr> in
                      if err \<noteq> 0 then unlock_out cell_mem err s
                      else unlock_out cell_mem err
                             (printk (CreatedCell (c_string (name (cell config)))) s))))))))"

subsection \<open>The CPUs selected by a mask\<close>

text \<open>
  Two functions used in the proofs about the iteration over the CPU mask in
  \<open>jailhouse_cell_create\<close>, to which they are proved equal: \<open>mask_cpus\<close> lists the
  CPU numbers of the bits set in the bytes \<open>ms\<close> of the mask, in the order in which
  the iteration reaches them, and \<open>offline_list\<close> is its body applied to a list of
  CPU numbers.
\<close>

definition mask_cpus :: "cell_config \<Rightarrow> nat list \<Rightarrow> nat list" where
  "mask_cpus config ms =
     concat (map (\<lambda>mask_pos. map (\<lambda>bit_pos. (mask_pos * 8 + bit_pos) mod 2 ^ 32)
       (filter (\<lambda>bit_pos. cpu_mask config mask_pos AND push_bit bit_pos 1 \<noteq> 0) [0..<8])) ms)"

fun offline_list :: "env \<Rightarrow> nat list \<Rightarrow> kstate \<Rightarrow> kstate \<times> int option" where
  "offline_list e [] s = (s, None)"
| "offline_list e (cpu # cpus) s =
     (if cpu_online s cpu then
        (let (err, s) = cpu_down e cpu s
         in if err \<noteq> 0 then (s, Some err)
            else offline_list e cpus (s\<lparr>offlined_cpus := insert cpu (offlined_cpus s)\<rparr>))
      else offline_list e cpus s)"

text \<open>
  \<open>first_occurrences xs\<close> keeps the first occurrence of every element of \<open>xs\<close>.
  The CPU number is the bit index modulo \<open>2 ^ 32\<close>, so a mask of more than
  \<open>2 ^ 29\<close> bytes can select a CPU number twice; the second time the CPU is offline.
\<close>

fun first_occurrences :: "nat list \<Rightarrow> nat list" where
  "first_occurrences [] = []"
| "first_occurrences (x # xs) = x # first_occurrences (filter (\<lambda>y. y \<noteq> x) xs)"

subsection \<open>Concrete scenarios\<close>

text \<open>
  A machine with four CPUs, all online, and the module freshly loaded.  The system
  configuration reserves 0x400000 bytes at 0x40000000; the image has \<open>bss_end\<close>
  0x100000 and 0x1000 bytes per CPU; the configuration takes 0x1000 bytes.  The cell
  asks for CPUs 2 and 3 and 1 MiB of RAM, with a preload image of 0x2000 bytes at 0.
\<close>

definition demo_signature :: "u8 list" where
  "demo_signature = [0x4A, 0x41, 0x49, 0x4C, 0x48, 0x4F, 0x55, 0x53]"

definition demo_header :: jailhouse_header where
  "demo_header = \<lparr>signature = demo_signature, bss_end = 0x100000, percpu_size = 0x1000,
     entry = 0\<rparr>"

definition demo_config :: cell_config where
  "demo_config =
     \<lparr>cell = \<lparr>name = replicate 32 0x41, cpu_set_size = 1, num_memory_regions = 1\<rparr>,
      cpu_mask = (\<lambda>i. if i = 0 then 0x0C else 0),
      ram = \<lparr>phys_start = 0x3bf00000, virt_start = 0, mem_size = 0x100000,
             access_flags = 7\<rparr>\<rparr>"

definition demo_env :: env where
  "demo_env =
     \<lparr>JAILHOUSE_SIGNATURE = demo_signature,
      JAILHOUSE_CELL_NAME_MAXLEN = 31,
      jailhouse_system_config_size = (\<lambda>_. 0x1000),
      nr_cpu_ids = 4,
      num_possible_cpus = 4,
      user_system = Some \<lparr>hypervisor_memory =
        \<lparr>phys_start = 0x40000000, virt_start = 0, mem_size = 0x400000, access_flags = 7\<rparr>\<rparr>,
      copy_config_ok = True,
      lock_ok = True,
      try_module_get = True,
      request_firmware = (0, \<lparr>fw_data = demo_header, fw_size = 0x80000\<rparr>),
      ioremap_cache = (\<lambda>start sz. 0xffffc90000000000 + start),
      hv_entry = (\<lambda>_. 0),
      hc_disable = (\<lambda>_. 0),
      ipi_order = [0, 1, 2, 3],
      cpu_up_result = (\<lambda>_. 0),
      cpu_down_result = (\<lambda>_. 0),
      user_cell = Some \<lparr>config_address = 0x1000, config_size = 0x100, num_preload_images = 1\<rparr>,
      user_image = Some \<lparr>source_address = 0x2000, image_size = 0x2000, target_address = 0\<rparr>,
      kmalloc_ok = True,
      user_config = Some demo_config,
      copy_preload_ok = True,
      hc_cell_create = (\<lambda>_. 0)\<rparr>"

definition boot_state :: kstate where
  "boot_state =
     \<lparr>enabled = False, hypervisor_mem = 0, offlined_cpus = {}, call_done = 0,
      error_code = 0, lock_held = False, module_refs = 0, fw_held = 0, kmalloced = 0,
      mapped = [], cpu_online_mask = {0, 1, 2, 3}, trace = []\<rparr>"

text \<open>
  The states the demonstration machine goes through: \<open>enabled_state\<close> after
  \<open>jailhouse_enable\<close>, \<open>cell_state\<close> after \<open>jailhouse_cell_create\<close>;
  \<open>rejected_cell_state\<close> is reached when the cell is created before the hypervisor is
  enabled.  In \<open>interrupted_env\<close> the wait for the lock is interrupted.
\<close>

definition demo_config_terminated :: cell_config where
  "demo_config_terminated =
     demo_config\<lparr>cell := (cell demo_config)\<lparr>name := replicate 31 0x41 @ [0]\<rparr>\<rparr>"

definition enabled_state :: kstate where
  "enabled_state =
     boot_state\<lparr>enabled := True, hypervisor_mem := 0xffffc90040000000, call_done := 4,
       module_refs := 1, mapped := [0xffffc90040000000], trace := [Printk Opening]\<rparr>"

definition cell_state :: kstate where
  "cell_state =
     enabled_state\<lparr>offlined_cpus := {2, 3}, cpu_online_mask := {0, 1},
       trace := [Printk Opening, CpuDown 2, CpuDown 3, HcCellCreate demo_config_terminated,
         Printk (CreatedCell (replicate 31 0x41))]\<rparr>"

definition rejected_cell_state :: kstate where
  "rejected_cell_state =
     boot_state\<lparr>offlined_cpus := {2, 3}, cpu_online_mask := {0, 1},
       trace := [CpuDown 2, CpuDown 3]\<rparr>"

definition interrupted_env :: env where
  "interrupted_env = demo_env\<lparr>lock_ok := False\<rparr>"

text \<open>
  The same machine when the hypervisor fails on two CPUs, on CPU 0 with \<open>-EINVAL\<close> and
  on CPU 1 with \<open>-EBUSY\<close>.
\<close>

definition two_failures_env :: env where
  "two_failures_env =
     demo_env\<lparr>hv_entry := (\<lambda>cpu. if cpu = 0 then - EINVAL else if cpu = 1 then - EBUSY else 0),
              hc_disable := (\<lambda>cpu. if cpu = 0 then - EINVAL else if cpu = 1 then - EBUSY else 0)\<rparr>"



text \<open>
  A preload image of two bytes at offset \<open>2 ^ 64 - 1\<close>: offset plus size is \<open>2 ^ 64 + 1\<close>,
  which is 1 in 64 bits.
\<close>

definition wrapping_image :: jailhouse_preload_image where
  "wrapping_image =
     \<lparr>source_address = 0x2000, image_size = 2, target_address = 0xFFFFFFFFFFFFFFFF\<rparr>"

definition wrapping_image_env :: env where
  "wrapping_image_env = demo_env\<lparr>user_image := Some wrapping_image\<rparr>"

text \<open>
  After the cell is created CPUs 0 and 1 are online, and only they take part in a
  rendezvous.  \<open>closed_state\<close> is the state after \<open>jailhouse_disable\<close> then.
\<close>

definition two_cpu_env :: env where
  "two_cpu_env = demo_env\<lparr>ipi_order := [0, 1]\<rparr>"

definition closed_state :: kstate where
  "closed_state =
     cell_state\<lparr>enabled := False, call_done := 2, module_refs := 0, mapped := [],
       cpu_online_mask := {0, 1, 2, 3},
       trace := trace cell_state @ [CpuUp 2, CpuUp 3, Printk Closed]\<rparr>"

text \<open>
  An image whose per-CPU size is \<open>2 ^ 62\<close>: for four CPUs the product is \<open>2 ^ 64\<close>, which
  is 0 in an \<open>unsigned long\<close>.
\<close>

definition wrapping_header :: jailhouse_header where
  "wrapping_header = demo_header\<lparr>percpu_size := 0x4000000000000000\<rparr>"

definition wrapping_layout_env :: env where
  "wrapping_layout_env =
     demo_env\<lparr>request_firmware := (0, \<lparr>fw_data = wrapping_header, fw_size = 0x80000\<rparr>)\<rparr>"





section \<open>Properties\<close>

lemmas errno_defs = EINTR_def ENOMEM_def EFAULT_def EBUSY_def EINVAL_def

subsection \<open>The rendezvous\<close>

lemma fold_enter_error_code:
  "error_code (fold (enter_hypervisor e) cpus s) =
     (if filter (\<lambda>cpu. hv_entry e cpu \<noteq> 0) cpus = [] then error_code s
      else hv_entry e (last (filter (\<lambda>cpu. hv_entry e cpu \<noteq> 0) cpus)))"
  by (induction cpus arbitrary: s) (auto simp: enter_hypervisor_def Let_def)

lemma fold_leave_error_code:
  "error_code (fold (leave_hypervisor e) cpus s) =
     (if filter (\<lambda>cpu. hc_disable e cpu \<noteq> 0) cpus = [] then error_code s
      else hc_disable e (last (filter (\<lambda>cpu. hc_disable e cpu \<noteq> 0) cpus)))"
  by (induction cpus arbitrary: s) (auto simp: leave_hypervisor_def Let_def)

lemma last_filter_sat: "filter P xs \<noteq> [] \<Longrightarrow> P (last (filter P xs))"
  using last_in_set [of "filter P xs"] by simp

lemma fold_enter_hypervisor:
  "fold (enter_hypervisor e) cpus s =
     s\<lparr>error_code := (if filter (\<lambda>cpu. hv_entry e cpu \<noteq> 0) cpus = [] then error_code s
          else hv_entry e (last (filter (\<lambda>cpu. hv_entry e cpu \<noteq> 0) cpus))),
       call_done := call_done s + int (length cpus)\<rparr>"
  by (induction cpus arbitrary: s) (simp_all add: enter_hypervisor_def Let_def)

lemma fold_leave_hypervisor:
  "fold (leave_hypervisor e) cpus s =
     s\<lparr>error_code := (if filter (\<lambda>cpu. hc_disable e cpu \<noteq> 0) cpus = [] then error_code s
          else hc_disable e (last (filter (\<lambda>cpu. hc_disable e cpu \<noteq> 0) cpus))),
       call_done := call_done s + int (length cpus)\<rparr>"
  by (induction cpus arbitrary: s) (simp_all add: leave_hypervisor_def Let_def)

lemma wait_call_done_Some:
  assumes "wait_call_done s = Some s'"
  shows "s' = s \<and> call_done s = num_online_cpus s"
  using assms
  by (rule wait_call_done.raw_induct [rotated 1]) (auto simp: cpu_relax_def split: if_splits)

lemma wait_call_done_returns:
  "call_done s = num_online_cpus s \<Longrightarrow> wait_call_done s = Some s"
  by (subst wait_call_done.simps) simp

lemma wait_after_enter:
  assumes "int (length (ipi_order e)) = num_online_cpus s"
    and "call_done s' = 0" and "cpu_online_mask s' = cpu_online_mask s"
  shows "wait_call_done (fold (enter_hypervisor e) (ipi_order e) s') =
    Some (fold (enter_hypervisor e) (ipi_order e) s')"
  using assms
  by (intro wait_call_done_returns, subst (1 2) fold_enter_hypervisor)
     (simp add: num_online_cpus_def)

lemma wait_after_leave:
  assumes "int (length (ipi_order e)) = num_online_cpus s"
    and "call_done s' = 0" and "cpu_online_mask s' = cpu_online_mask s"
  shows "wait_call_done (fold (leave_hypervisor e) (ipi_order e) s') =
    Some (fold (leave_hypervisor e) (ipi_order e) s')"
  using assms
  by (intro wait_call_done_returns, subst (1 2) fold_leave_hypervisor)
     (simp add: num_online_cpus_def)

text \<open>
  C1, as the code has it.  With \<open>error_code\<close> cleared beforehand, as both callers do,
  the aggregate of a rendezvous is 0 iff every CPU's result is 0; otherwise it is the
  non-zero result stored last, that of the last CPU in the order of execution whose
  result was not 0.  This holds for \<open>enter_hypervisor\<close> and for \<open>leave_hypervisor\<close>.
\<close>

theorem rendezvous_last_failure:
  "(error_code (on_each_cpu e (enter_hypervisor e) (s\<lparr>error_code := 0\<rparr>)) = 0
      \<longleftrightarrow> (\<forall>cpu \<in> set (ipi_order e). hv_entry e cpu = 0))
   \<and> error_code (on_each_cpu e (enter_hypervisor e) (s\<lparr>error_code := 0\<rparr>)) =
       (if filter (\<lambda>cpu. hv_entry e cpu \<noteq> 0) (ipi_order e) = [] then 0
        else hv_entry e (last (filter (\<lambda>cpu. hv_entry e cpu \<noteq> 0) (ipi_order e))))
   \<and> (error_code (on_each_cpu e (leave_hypervisor e) (s\<lparr>error_code := 0\<rparr>)) = 0
      \<longleftrightarrow> (\<forall>cpu \<in> set (ipi_order e). hc_disable e cpu = 0))
   \<and> error_code (on_each_cpu e (leave_hypervisor e) (s\<lparr>error_code := 0\<rparr>)) =
       (if filter (\<lambda>cpu. hc_disable e cpu \<noteq> 0) (ipi_order e) = [] then 0
        else hc_disable e (last (filter (\<lambda>cpu. hc_disable e cpu \<noteq> 0) (ipi_order e))))"
proof -
  have a: "filter (\<lambda>cpu. hv_entry e cpu \<noteq> 0) (ipi_order e) \<noteq> [] \<Longrightarrow>
      hv_entry e (last (filter (\<lambda>cpu. hv_entry e cpu \<noteq> 0) (ipi_order e))) \<noteq> 0"
    by (rule last_filter_sat)
  have b: "filter (\<lambda>cpu. hc_disable e cpu \<noteq> 0) (ipi_order e) \<noteq> [] \<Longrightarrow>
      hc_disable e (last (filter (\<lambda>cpu. hc_disable e cpu \<noteq> 0) (ipi_order e))) \<noteq> 0"
    by (rule last_filter_sat)
  have c: "(filter (\<lambda>cpu. hv_entry e cpu \<noteq> 0) (ipi_order e) = [])
      = (\<forall>cpu \<in> set (ipi_order e). hv_entry e cpu = 0)"
    by (simp add: filter_empty_conv)
  have d: "(filter (\<lambda>cpu. hc_disable e cpu \<noteq> 0) (ipi_order e) = [])
      = (\<forall>cpu \<in> set (ipi_order e). hc_disable e cpu = 0)"
    by (simp add: filter_empty_conv)
  have 1: "error_code (on_each_cpu e (enter_hypervisor e) (s\<lparr>error_code := 0\<rparr>)) = 0
      \<longleftrightarrow> (\<forall>cpu \<in> set (ipi_order e). hv_entry e cpu = 0)"
    unfolding on_each_cpu_def fold_enter_error_code c [symmetric] using a by simp
  have 2: "error_code (on_each_cpu e (leave_hypervisor e) (s\<lparr>error_code := 0\<rparr>)) = 0
      \<longleftrightarrow> (\<forall>cpu \<in> set (ipi_order e). hc_disable e cpu = 0)"
    unfolding on_each_cpu_def fold_leave_error_code d [symmetric] using b by simp
  have 3: "error_code (on_each_cpu e (enter_hypervisor e) (s\<lparr>error_code := 0\<rparr>)) =
       (if filter (\<lambda>cpu. hv_entry e cpu \<noteq> 0) (ipi_order e) = [] then 0
        else hv_entry e (last (filter (\<lambda>cpu. hv_entry e cpu \<noteq> 0) (ipi_order e))))"
    unfolding on_each_cpu_def fold_enter_error_code by simp
  have 4: "error_code (on_each_cpu e (leave_hypervisor e) (s\<lparr>error_code := 0\<rparr>)) =
       (if filter (\<lambda>cpu. hc_disable e cpu \<noteq> 0) (ipi_order e) = [] then 0
        else hc_disable e (last (filter (\<lambda>cpu. hc_disable e cpu \<noteq> 0) (ipi_order e))))"
    unfolding on_each_cpu_def fold_leave_error_code by simp
  from 1 2 3 4 show ?thesis by blast
qed

text \<open>
  On the four CPUs of the demonstration machine every result is 0, and so is the
  aggregate.
\<close>

theorem rendezvous_last_failure_witness:
  "ipi_order demo_env = [0, 1, 2, 3]
   \<and> map (hv_entry demo_env) [0, 1, 2, 3] = [0, 0, 0, 0]
   \<and> map (hc_disable demo_env) [0, 1, 2, 3] = [0, 0, 0, 0]
   \<and> error_code (on_each_cpu demo_env (enter_hypervisor demo_env)
        (boot_state\<lparr>error_code := 0\<rparr>)) = 0
   \<and> error_code (on_each_cpu demo_env (leave_hypervisor demo_env)
        (boot_state\<lparr>error_code := 0\<rparr>)) = 0"
  using rendezvous_last_failure [of demo_env boot_state]
  by (simp add: demo_env_def)

text \<open>
  C1 as stated fails: CPU 0 returns \<open>-EINVAL\<close>, CPU 1 returns \<open>-EBUSY\<close>, CPUs 2 and
  3 return 0, the handlers run in the order of the CPU numbers, and the aggregate is
  \<open>-EBUSY\<close>, not the first failure \<open>-EINVAL\<close>.
\<close>

theorem rendezvous_first_failure_counterexample:
  "ipi_order two_failures_env = [0, 1, 2, 3]
   \<and> hv_entry two_failures_env 0 = - EINVAL
   \<and> hv_entry two_failures_env 1 = - EBUSY
   \<and> error_code (on_each_cpu two_failures_env (enter_hypervisor two_failures_env)
        (boot_state\<lparr>error_code := 0\<rparr>)) = - EBUSY
   \<and> error_code (on_each_cpu two_failures_env (enter_hypervisor two_failures_env)
        (boot_state\<lparr>error_code := 0\<rparr>)) \<noteq> hv_entry two_failures_env 0"
  by (simp add: two_failures_env_def demo_env_def boot_state_def on_each_cpu_def
      enter_hypervisor_def Let_def errno_defs)

subsection \<open>jailhouse_enable\<close>

lemmas enable_exit_defs = error_unmap_def error_release_fw_def error_put_module_def
  error_unlock_def iounmap_def release_firmware_def module_put_def mutex_unlock_def

lemma jailhouse_enable_returns:
  assumes "int (length (ipi_order e)) = num_online_cpus s"
  shows "jailhouse_enable e s \<noteq> None"
  by (auto simp: jailhouse_enable_def Let_def jailhouse_ioremap_def on_each_cpu_def
      wait_after_enter [OF assms] split: option.splits prod.splits)

lemma demo_enable: "jailhouse_enable demo_env boot_state = Some (enabled_state, 0)"
  by (simp add: jailhouse_enable_def demo_env_def demo_header_def boot_state_def enabled_state_def
      PAGE_ALIGN_def PAGE_SIZE_def jailhouse_ioremap_def on_each_cpu_def enter_hypervisor_def
      wait_call_done_returns num_online_cpus_def release_firmware_def mutex_unlock_def printk_def
      Let_def)

text \<open>
  C5.  From the disabled state with the lock free, a call of \<open>jailhouse_enable\<close> that
  returns an error leaves the hypervisor disabled, the list of mappings, the firmware
  handles and the module reference count as they were, and the lock free; nor has it
  touched the CPUs.  (A call returns unless a CPU does not answer the rendezvous.)
\<close>

theorem enable_failure_unwinds:
  assumes "\<not> enabled s" and "\<not> lock_held s"
    and "jailhouse_enable e s = Some (s', err)" and "err \<noteq> 0"
  shows "\<not> enabled s' \<and> mapped s' = mapped s \<and> fw_held s' = fw_held s
    \<and> module_refs s' = module_refs s \<and> \<not> lock_held s'
    \<and> offlined_cpus s' = offlined_cpus s \<and> cpu_online_mask s' = cpu_online_mask s
    \<and> trace s' = trace s"
  using assms
  by (auto simp: jailhouse_enable_def Let_def enable_exit_defs jailhouse_ioremap_def
      on_each_cpu_def fold_enter_hypervisor printk_def
      split: option.splits if_splits prod.splits dest!: wait_call_done_Some)

lemma two_failures_enable:
  "jailhouse_enable two_failures_env boot_state =
     Some (boot_state\<lparr>hypervisor_mem := 0xffffc90040000000, call_done := 4,
       error_code := - EBUSY\<rparr>, - EBUSY)"
  by (simp add: jailhouse_enable_def two_failures_env_def demo_env_def demo_header_def
      boot_state_def PAGE_ALIGN_def PAGE_SIZE_def jailhouse_ioremap_def on_each_cpu_def
      enter_hypervisor_def wait_call_done_returns num_online_cpus_def enable_exit_defs
      Let_def errno_defs)

text \<open>
  The hypervisor fails on CPUs 0 and 1: the region is mapped, the image copied, and all
  of it is undone.
\<close>

theorem enable_failure_unwinds_witness:
  "jailhouse_enable two_failures_env boot_state =
     Some (boot_state\<lparr>hypervisor_mem := 0xffffc90040000000, call_done := 4,
       error_code := - EBUSY\<rparr>, - EBUSY)
   \<and> \<not> enabled (boot_state\<lparr>hypervisor_mem := 0xffffc90040000000, call_done := 4,
       error_code := - EBUSY\<rparr>)
   \<and> mapped (boot_state\<lparr>hypervisor_mem := 0xffffc90040000000, call_done := 4,
       error_code := - EBUSY\<rparr>) = mapped boot_state
   \<and> fw_held (boot_state\<lparr>hypervisor_mem := 0xffffc90040000000, call_done := 4,
       error_code := - EBUSY\<rparr>) = fw_held boot_state
   \<and> module_refs (boot_state\<lparr>hypervisor_mem := 0xffffc90040000000, call_done := 4,
       error_code := - EBUSY\<rparr>) = module_refs boot_state"
  using enable_failure_unwinds [OF _ _ two_failures_enable]
  by (simp add: two_failures_enable) (simp add: boot_state_def errno_defs)

lemma layout_check_exact:
  fixes hv_core_size p c sz :: u64 and n :: u32
  assumes "unat hv_core_size + unat n * unat p + unat c < 2 ^ 64"
  shows "sz \<le> hv_core_size + ucast n * p + c
    \<longleftrightarrow> unat sz \<le> unat hv_core_size + unat n * unat p + unat c"
proof -
  have "unat n < 2 ^ 32" using unsigned_less [of n, where 'a = nat] by simp
  then have "unat n < 2 ^ 64" by simp
  then have n: "unat (ucast n :: u64) = unat n"
    by (simp add: unsigned_ucast_eq take_bit_nat_eq_self)
  from assms have "unat n * unat p < 2 ^ 64" by simp
  then have 1: "unat ((ucast n :: u64) * p) = unat n * unat p"
    using unat_mult_lem [of "ucast n :: u64" p] n by simp
  from assms have "unat hv_core_size + unat n * unat p < 2 ^ 64" by simp
  then have 2: "unat (hv_core_size + ucast n * p) = unat hv_core_size + unat n * unat p"
    using unat_add_lem [of hv_core_size "ucast n * p"] 1 by simp
  from assms have "unat (hv_core_size + ucast n * p + c)
      = unat hv_core_size + unat n * unat p + unat c"
    using unat_add_lem [of "hv_core_size + ucast n * p" c] 2 by simp
  then show ?thesis by (simp add: word_le_nat_alt)
qed

text \<open>
  C3 at an input where the sum exceeds \<open>2 ^ 64\<close>: core, per-CPU areas and configuration
  need more than the 0x400000 bytes of the region, the sum computed is 0x101000, and the
  hypervisor is enabled.
\<close>

theorem enable_layout_check_wraps:
  "request_firmware wrapping_layout_env = (0, \<lparr>fw_data = wrapping_header, fw_size = 0x80000\<rparr>)
   \<and> unat (PAGE_ALIGN (bss_end wrapping_header))
       + unat (num_possible_cpus wrapping_layout_env) * unat (percpu_size wrapping_header)
       + unat (jailhouse_system_config_size wrapping_layout_env
           \<lparr>hypervisor_memory = \<lparr>phys_start = 0x40000000, virt_start = 0, mem_size = 0x400000,
              access_flags = 7\<rparr>\<rparr>)
       = 2 ^ 64 + 0x101000
   \<and> PAGE_ALIGN (bss_end wrapping_header)
       + ucast (num_possible_cpus wrapping_layout_env) * percpu_size wrapping_header
       + jailhouse_system_config_size wrapping_layout_env
           \<lparr>hypervisor_memory = \<lparr>phys_start = 0x40000000, virt_start = 0, mem_size = 0x400000,
              access_flags = 7\<rparr>\<rparr>
       = 0x101000
   \<and> jailhouse_enable wrapping_layout_env boot_state = Some (enabled_state, 0)"
  by (simp add: jailhouse_enable_def wrapping_layout_env_def wrapping_header_def demo_env_def
      demo_header_def boot_state_def enabled_state_def PAGE_ALIGN_def PAGE_SIZE_def
      jailhouse_ioremap_def on_each_cpu_def enter_hypervisor_def wait_call_done_returns
      num_online_cpus_def release_firmware_def mutex_unlock_def printk_def Let_def)

subsection \<open>jailhouse_disable\<close>

lemma jailhouse_disable_returns:
  assumes "int (length (ipi_order e)) = num_online_cpus s"
  shows "jailhouse_disable e s \<noteq> None"
  by (auto simp: jailhouse_disable_def Let_def on_each_cpu_def
      wait_after_leave [OF assms] split: option.splits prod.splits)

lemma cpus_up_result:
  "cpus_up e cpus s =
     s\<lparr>cpu_online_mask := cpu_online_mask s \<union> {c \<in> set cpus. cpu_up_result e c = 0},
       trace := trace s @ concat (map (\<lambda>c. CpuUp c #
         (if cpu_up_result e c \<noteq> 0 then [Printk (CpuUpFailed c)] else [])) cpus)\<rparr>"
proof (induction cpus arbitrary: s)
  case Nil
  show ?case by simp
next
  case (Cons cpu cpus)
  have sets: "{c \<in> set (cpu # cpus). cpu_up_result e c = 0} =
      (if cpu_up_result e cpu = 0 then insert cpu {c \<in> set cpus. cpu_up_result e c = 0}
       else {c \<in> set cpus. cpu_up_result e c = 0})"
    by auto
  show ?case
    unfolding sets by (simp add: Cons.IH cpu_up_def printk_def Let_def)
qed

text \<open>
  C4.  When some CPU reports a failure of the disable hypercall, \<open>jailhouse_disable\<close>
  returns the aggregate of the rendezvous, which is not 0, and changes nothing but
  \<open>error_code\<close> and \<open>call_done\<close>: the hypervisor memory stays mapped, \<open>enabled\<close> stays
  true, the module reference is kept and the lock is free again.
\<close>

theorem disable_barrier_failure:
  assumes "lock_ok e" and "enabled s" and "\<not> lock_held s"
    and "int (length (ipi_order e)) = num_online_cpus s"
    and "\<exists>cpu \<in> set (ipi_order e). hc_disable e cpu \<noteq> 0"
  shows "\<exists>s' err. jailhouse_disable e s = Some (s', err)
    \<and> err = error_code (on_each_cpu e (leave_hypervisor e)
        (s\<lparr>lock_held := True, error_code := 0, call_done := 0\<rparr>))
    \<and> err \<noteq> 0
    \<and> s' = s\<lparr>error_code := err, call_done := num_online_cpus s\<rparr>
    \<and> mapped s' = mapped s \<and> hypervisor_mem s' = hypervisor_mem s \<and> enabled s'
    \<and> \<not> lock_held s'"
proof -
  let ?s0 = "s\<lparr>lock_held := True, error_code := 0, call_done := 0\<rparr>"
  let ?failed = "filter (\<lambda>cpu. hc_disable e cpu \<noteq> 0) (ipi_order e)"
  define err where "err = hc_disable e (last ?failed)"
  from assms(5) have ne: "?failed \<noteq> []"
    by (simp add: filter_empty_conv)
  then have nz: "err \<noteq> 0"
    unfolding err_def by (rule last_filter_sat)
  have st: "fold (leave_hypervisor e) (ipi_order e) ?s0 =
      s\<lparr>lock_held := True, error_code := err, call_done := num_online_cpus s\<rparr>"
    by (simp add: fold_leave_hypervisor ne err_def assms(4))
  have agg: "error_code (on_each_cpu e (leave_hypervisor e) ?s0) = err"
    by (simp add: on_each_cpu_def st)
  have w: "wait_call_done
        (s\<lparr>lock_held := True, error_code := err, call_done := num_online_cpus s\<rparr>) =
      Some (s\<lparr>lock_held := True, error_code := err, call_done := num_online_cpus s\<rparr>)"
    by (rule wait_call_done_returns) (simp add: num_online_cpus_def)
  have run: "jailhouse_disable e s =
      Some (s\<lparr>error_code := err, call_done := num_online_cpus s\<rparr>, err)"
    using assms(1-3) nz
    by (simp add: jailhouse_disable_def Let_def on_each_cpu_def st w mutex_unlock_def)
  show ?thesis
    by (intro exI [of _ "s\<lparr>error_code := err, call_done := num_online_cpus s\<rparr>"]
          exI [of _ err])
       (simp add: run nz agg assms(2,3))
qed

text \<open>
  The disable hypercall fails on CPUs 0 and 1 of the enabled machine.
\<close>

theorem disable_barrier_failure_witness:
  "jailhouse_disable two_failures_env enabled_state =
     Some (enabled_state\<lparr>error_code := - EBUSY\<rparr>, - EBUSY)
   \<and> enabled (enabled_state\<lparr>error_code := - EBUSY\<rparr>)
   \<and> mapped (enabled_state\<lparr>error_code := - EBUSY\<rparr>) = [0xffffc90040000000]"
proof -
  have "error_code (on_each_cpu two_failures_env (leave_hypervisor two_failures_env)
        (enabled_state\<lparr>lock_held := True, error_code := 0, call_done := 0\<rparr>)) = - EBUSY"
    by (simp add: on_each_cpu_def leave_hypervisor_def two_failures_env_def demo_env_def
        Let_def errno_defs)
  moreover have "enabled_state\<lparr>error_code := - EBUSY, call_done := num_online_cpus enabled_state\<rparr>
      = enabled_state\<lparr>error_code := - EBUSY\<rparr>"
    by (simp add: enabled_state_def boot_state_def num_online_cpus_def)
  moreover have "lock_ok two_failures_env" "enabled enabled_state" "\<not> lock_held enabled_state"
    "int (length (ipi_order two_failures_env)) = num_online_cpus enabled_state"
    "\<exists>cpu \<in> set (ipi_order two_failures_env). hc_disable two_failures_env cpu \<noteq> 0"
    by (simp_all add: two_failures_env_def demo_env_def enabled_state_def boot_state_def
        num_online_cpus_def errno_defs)
  ultimately show ?thesis
    using disable_barrier_failure [of two_failures_env enabled_state]
    by (simp add: enabled_state_def)
qed

text \<open>
  C2, as the code has it.  When every CPU reports success, \<open>jailhouse_disable\<close> returns
  0 with the hypervisor memory unmapped, \<open>enabled\<close> false, the module reference dropped
  and the lock free.  It has asked for every CPU of \<open>offlined_cpus\<close> (below
  \<open>nr_cpu_ids\<close>) to be brought up; a CPU that came up is online, one that did not has
  its message in the log.  \<open>offlined_cpus\<close> itself is what it was.
\<close>

theorem disable_success_keeps_offlined_cpus:
  assumes "lock_ok e" and "enabled s"
    and "int (length (ipi_order e)) = num_online_cpus s"
    and "\<forall>cpu \<in> set (ipi_order e). hc_disable e cpu = 0"
  shows "\<exists>s'. jailhouse_disable e s = Some (s', 0)
    \<and> mapped s' = remove1 (hypervisor_mem s) (mapped s)
    \<and> (\<forall>cpu \<in> offlined_cpus s. cpu < nr_cpu_ids e \<longrightarrow>
          CpuUp cpu \<in> set (trace s')
          \<and> (if cpu_up_result e cpu = 0 then cpu \<in> cpu_online_mask s'
             else Printk (CpuUpFailed cpu) \<in> set (trace s')))
    \<and> offlined_cpus s' = offlined_cpus s
    \<and> \<not> enabled s' \<and> module_refs s' = module_refs s - 1 \<and> \<not> lock_held s'"
proof -
  let ?s0 = "s\<lparr>lock_held := True, error_code := 0, call_done := 0\<rparr>"
  let ?cpus = "for_each_cpu_mask e (offlined_cpus s)"
  let ?ups = "concat (map (\<lambda>c. CpuUp c #
         (if cpu_up_result e c \<noteq> 0 then [Printk (CpuUpFailed c)] else [])) ?cpus)"
  define s' where "s' = s\<lparr>error_code := 0, call_done := num_online_cpus s,
      mapped := remove1 (hypervisor_mem s) (mapped s),
      cpu_online_mask := cpu_online_mask s \<union> {c \<in> set ?cpus. cpu_up_result e c = 0},
      trace := trace s @ ?ups @ [Printk Closed],
      enabled := False, module_refs := module_refs s - 1, lock_held := False\<rparr>"
  from assms(4) have ne: "filter (\<lambda>cpu. hc_disable e cpu \<noteq> 0) (ipi_order e) = []"
    by (simp add: filter_empty_conv)
  have st: "fold (leave_hypervisor e) (ipi_order e) ?s0 =
      s\<lparr>lock_held := True, error_code := 0, call_done := num_online_cpus s\<rparr>"
    by (simp add: fold_leave_hypervisor ne assms(3))
  have w: "wait_call_done
        (s\<lparr>lock_held := True, error_code := 0, call_done := num_online_cpus s\<rparr>) =
      Some (s\<lparr>lock_held := True, error_code := 0, call_done := num_online_cpus s\<rparr>)"
    by (rule wait_call_done_returns) (simp add: num_online_cpus_def)
  have run: "jailhouse_disable e s = Some (s', 0)"
    using assms(1,2)
    by (simp add: jailhouse_disable_def Let_def on_each_cpu_def st w mutex_unlock_def
        iounmap_def cpus_up_result module_put_def printk_def s'_def)
  have ups: "CpuUp cpu \<in> set ?ups
      \<and> (if cpu_up_result e cpu = 0
          then cpu \<in> cpu_online_mask s \<union> {c \<in> set ?cpus. cpu_up_result e c = 0}
          else Printk (CpuUpFailed cpu) \<in> set ?ups)"
    if "cpu \<in> offlined_cpus s" "cpu < nr_cpu_ids e" for cpu
  proof -
    from that have "cpu \<in> set ?cpus" by (simp add: for_each_cpu_mask_def)
    then show ?thesis by auto
  qed
  show ?thesis
  proof (intro exI [of _ s'] conjI ballI impI)
    show "jailhouse_disable e s = Some (s', 0)" by (rule run)
    show "mapped s' = remove1 (hypervisor_mem s) (mapped s)" by (simp add: s'_def)
    show "CpuUp cpu \<in> set (trace s')" if "cpu \<in> offlined_cpus s" "cpu < nr_cpu_ids e" for cpu
      using ups [OF that] by (simp add: s'_def)
    show "if cpu_up_result e cpu = 0 then cpu \<in> cpu_online_mask s'
             else Printk (CpuUpFailed cpu) \<in> set (trace s')"
      if "cpu \<in> offlined_cpus s" "cpu < nr_cpu_ids e" for cpu
      using ups [OF that] by (simp add: s'_def)
    show "offlined_cpus s' = offlined_cpus s" by (simp add: s'_def)
    show "\<not> enabled s'" by (simp add: s'_def)
    show "module_refs s' = module_refs s - 1" by (simp add: s'_def)
    show "\<not> lock_held s'" by (simp add: s'_def)
  qed
qed

lemma cell_disable: "jailhouse_disable two_cpu_env cell_state = Some (closed_state, 0)"
proof -
  have w: "wait_call_done s = Some s" if "call_done s = 2" "cpu_online_mask s = {0, 1}" for s
    using that by (intro wait_call_done_returns) (simp add: num_online_cpus_def)
  have upt4: "[0..<4] = [0, 1, 2, 3]"
    by (simp add: upt_rec)
  show ?thesis
    by (auto simp add: jailhouse_disable_def two_cpu_env_def demo_env_def cell_state_def
        enabled_state_def boot_state_def closed_state_def on_each_cpu_def leave_hypervisor_def
        w iounmap_def for_each_cpu_mask_def cpu_up_def module_put_def printk_def
        mutex_unlock_def Let_def upt4)
qed

theorem disable_success_keeps_offlined_cpus_witness:
  "\<exists>s'. jailhouse_disable two_cpu_env cell_state = Some (s', 0)
    \<and> mapped s' = []
    \<and> CpuUp 2 \<in> set (trace s') \<and> 2 \<in> cpu_online_mask s'
    \<and> CpuUp 3 \<in> set (trace s') \<and> 3 \<in> cpu_online_mask s'
    \<and> offlined_cpus s' = {2, 3}
    \<and> \<not> enabled s' \<and> module_refs s' = 0 \<and> \<not> lock_held s'"
proof -
  have pre: "lock_ok two_cpu_env" "enabled cell_state"
    "int (length (ipi_order two_cpu_env)) = num_online_cpus cell_state"
    "\<forall>cpu \<in> set (ipi_order two_cpu_env). hc_disable two_cpu_env cpu = 0"
    by (simp_all add: two_cpu_env_def demo_env_def cell_state_def enabled_state_def
        boot_state_def num_online_cpus_def)
  from disable_success_keeps_offlined_cpus [OF pre] obtain s' where s':
    "jailhouse_disable two_cpu_env cell_state = Some (s', 0)"
    "mapped s' = remove1 (hypervisor_mem cell_state) (mapped cell_state)"
    "\<forall>cpu \<in> offlined_cpus cell_state. cpu < nr_cpu_ids two_cpu_env \<longrightarrow>
          CpuUp cpu \<in> set (trace s')
          \<and> (if cpu_up_result two_cpu_env cpu = 0 then cpu \<in> cpu_online_mask s'
             else Printk (CpuUpFailed cpu) \<in> set (trace s'))"
    "offlined_cpus s' = offlined_cpus cell_state"
    "\<not> enabled s'" "module_refs s' = module_refs cell_state - 1" "\<not> lock_held s'"
    by (elim exE conjE)
  have facts: "offlined_cpus cell_state = {2, 3}" "nr_cpu_ids two_cpu_env = 4"
    "cpu_up_result two_cpu_env 2 = 0" "cpu_up_result two_cpu_env 3 = 0"
    "module_refs cell_state = 1"
    "remove1 (hypervisor_mem cell_state) (mapped cell_state) = []"
    by (simp_all add: two_cpu_env_def demo_env_def cell_state_def enabled_state_def
        boot_state_def)
  from s'(3) facts have "CpuUp 2 \<in> set (trace s') \<and> 2 \<in> cpu_online_mask s'"
    "CpuUp 3 \<in> set (trace s') \<and> 3 \<in> cpu_online_mask s'"
    by simp_all
  with s'(1,2,4-7) facts show ?thesis
    by (intro exI [of _ s']) simp
qed

text \<open>
  C2 as stated fails: after the cell is created and the hypervisor disabled again,
  \<open>offlined_cpus\<close> still holds CPUs 2 and 3, which are online.
\<close>

theorem disable_clears_offlined_cpus_counterexample:
  "jailhouse_disable two_cpu_env cell_state = Some (closed_state, 0)
   \<and> offlined_cpus closed_state = {2, 3}
   \<and> offlined_cpus closed_state \<noteq> {}
   \<and> cpu_online_mask closed_state = {0, 1, 2, 3}"
  by (simp add: cell_disable) (simp add: closed_state_def cell_state_def enabled_state_def)

subsection \<open>The iteration over the CPU mask\<close>

lemma bit_loop_offline_list:
  "bit_loop e config mask_pos bs s =
     offline_list e (map (\<lambda>bit_pos. (mask_pos * 8 + bit_pos) mod 2 ^ 32)
       (filter (\<lambda>bit_pos. cpu_mask config mask_pos AND push_bit bit_pos 1 \<noteq> 0) bs)) s"
  by (induction bs arbitrary: s)
     (auto simp: cpu_mask_bit_def Let_def split: prod.splits option.splits)

lemma offline_list_append:
  "offline_list e (xs @ ys) s =
     (case offline_list e xs s of
        (s', Some err) \<Rightarrow> (s', Some err)
      | (s', None) \<Rightarrow> offline_list e ys s')"
  by (induction xs arbitrary: s) (auto simp: Let_def split: prod.splits option.splits)

lemma mask_loop_offline_list:
  "mask_loop e config ms s = offline_list e (mask_cpus config ms) s"
  by (induction ms arbitrary: s)
     (auto simp: mask_cpus_def bit_loop_offline_list offline_list_append
       split: prod.splits option.splits)

lemma offline_list_spec:
  "offline_list e cpus s = (s', r) \<Longrightarrow>
   \<exists>cs. subseq cs cpus
     \<and> trace s' = trace s @ map CpuDown cs
     \<and> set cs \<subseteq> cpu_online_mask s
     \<and> s' = s\<lparr>offlined_cpus := offlined_cpus s \<union> {c \<in> set cs. cpu_down_result e c = 0},
              cpu_online_mask := cpu_online_mask s - {c \<in> set cs. cpu_down_result e c = 0},
              trace := trace s @ map CpuDown cs\<rparr>
     \<and> (case r of
          None \<Rightarrow> (\<forall>c \<in> set cs. cpu_down_result e c = 0)
        | Some err \<Rightarrow> cs \<noteq> [] \<and> err = cpu_down_result e (last cs) \<and> err \<noteq> 0
            \<and> (\<forall>c \<in> set (butlast cs). cpu_down_result e c = 0))"
proof (induction cpus arbitrary: s)
  case Nil
  then show ?case by auto
next
  case (Cons cpu cpus)
  show ?case
  proof (cases "cpu_online s cpu")
    case False
    with Cons.prems have "offline_list e cpus s = (s', r)" by simp
    from Cons.IH [OF this] obtain cs where cs: "subseq cs cpus"
      "trace s' = trace s @ map CpuDown cs" "set cs \<subseteq> cpu_online_mask s"
      "s' = s\<lparr>offlined_cpus := offlined_cpus s \<union> {c \<in> set cs. cpu_down_result e c = 0},
              cpu_online_mask := cpu_online_mask s - {c \<in> set cs. cpu_down_result e c = 0},
              trace := trace s @ map CpuDown cs\<rparr>"
      "(case r of
          None \<Rightarrow> (\<forall>c \<in> set cs. cpu_down_result e c = 0)
        | Some err \<Rightarrow> cs \<noteq> [] \<and> err = cpu_down_result e (last cs) \<and> err \<noteq> 0
            \<and> (\<forall>c \<in> set (butlast cs). cpu_down_result e c = 0))"
      by blast
    from cs(1) have "subseq cs (cpu # cpus)" by (rule list_emb_Cons)
    with cs show ?thesis by blast
  next
    case True
    show ?thesis
    proof (cases "cpu_down_result e cpu = 0")
      case False
      with True Cons.prems have s': "s' = s\<lparr>trace := trace s @ [CpuDown cpu]\<rparr>"
        and r: "r = Some (cpu_down_result e cpu)"
        by (auto simp: cpu_down_def Let_def)
      have "subseq [cpu] (cpu # cpus)" by simp
      moreover have emp: "{c. c = cpu \<and> cpu_down_result e c = 0} = {}" using False by auto
      ultimately show ?thesis using True False s' r
        by (intro exI [of _ "[cpu]"]) (simp add: cpu_online_def emp)
    next
      case ok: True
      define s1 where "s1 = s\<lparr>trace := trace s @ [CpuDown cpu],
        cpu_online_mask := cpu_online_mask s - {cpu},
        offlined_cpus := insert cpu (offlined_cpus s)\<rparr>"
      from True ok Cons.prems have "offline_list e cpus s1 = (s', r)"
        by (simp add: cpu_down_def Let_def s1_def)
      from Cons.IH [OF this] obtain cs where cs: "subseq cs cpus"
        "trace s' = trace s1 @ map CpuDown cs" "set cs \<subseteq> cpu_online_mask s1"
        "s' = s1\<lparr>offlined_cpus := offlined_cpus s1 \<union> {c \<in> set cs. cpu_down_result e c = 0},
              cpu_online_mask := cpu_online_mask s1 - {c \<in> set cs. cpu_down_result e c = 0},
              trace := trace s1 @ map CpuDown cs\<rparr>"
        "(case r of
          None \<Rightarrow> (\<forall>c \<in> set cs. cpu_down_result e c = 0)
        | Some err \<Rightarrow> cs \<noteq> [] \<and> err = cpu_down_result e (last cs) \<and> err \<noteq> 0
            \<and> (\<forall>c \<in> set (butlast cs). cpu_down_result e c = 0))"
        by blast
      have 1: "subseq (cpu # cs) (cpu # cpus)" using cs(1) by simp
      have 2: "trace s' = trace s @ map CpuDown (cpu # cs)" using cs(2) by (simp add: s1_def)
      have 3: "set (cpu # cs) \<subseteq> cpu_online_mask s"
        using cs(3) True by (auto simp: s1_def cpu_online_def)
      have sets: "{c \<in> set (cpu # cs). cpu_down_result e c = 0}
          = insert cpu {c \<in> set cs. cpu_down_result e c = 0}"
        using ok by auto
      have 4: "s' = s\<lparr>offlined_cpus := offlined_cpus s \<union> {c \<in> set (cpu # cs). cpu_down_result e c = 0},
              cpu_online_mask := cpu_online_mask s - {c \<in> set (cpu # cs). cpu_down_result e c = 0},
              trace := trace s @ map CpuDown (cpu # cs)\<rparr>"
        unfolding sets by (subst cs(4)) (simp add: s1_def Diff_insert2 [symmetric])
      have 5: "(case r of
          None \<Rightarrow> (\<forall>c \<in> set (cpu # cs). cpu_down_result e c = 0)
        | Some err \<Rightarrow> cpu # cs \<noteq> [] \<and> err = cpu_down_result e (last (cpu # cs)) \<and> err \<noteq> 0
            \<and> (\<forall>c \<in> set (butlast (cpu # cs)). cpu_down_result e c = 0))"
        using cs(5) ok by (auto split: option.splits)
      from 1 2 3 4 5 show ?thesis by blast
    qed
  qed
qed

lemma offline_list_all_succeed:
  assumes "\<forall>cpu \<in> set cpus. cpu_down_result e cpu = 0"
    and "offline_list e cpus s = (s', r)"
  shows "r = None \<and> (\<exists>cs. subseq cs cpus \<and> set cs \<subseteq> cpu_online_mask s
     \<and> s' = s\<lparr>offlined_cpus := offlined_cpus s \<union> set cs,
              cpu_online_mask := cpu_online_mask s - set cs,
              trace := trace s @ map CpuDown cs\<rparr>)"
proof -
  from offline_list_spec [OF assms(2)] obtain cs where cs:
    "subseq cs cpus" "set cs \<subseteq> cpu_online_mask s"
    "s' = s\<lparr>offlined_cpus := offlined_cpus s \<union> {c \<in> set cs. cpu_down_result e c = 0},
         cpu_online_mask := cpu_online_mask s - {c \<in> set cs. cpu_down_result e c = 0},
         trace := trace s @ map CpuDown cs\<rparr>"
    "(case r of
          None \<Rightarrow> (\<forall>c \<in> set cs. cpu_down_result e c = 0)
        | Some err \<Rightarrow> cs \<noteq> [] \<and> err = cpu_down_result e (last cs) \<and> err \<noteq> 0
            \<and> (\<forall>c \<in> set (butlast cs). cpu_down_result e c = 0))"
    by blast
  from cs(1) have sub: "set cs \<subseteq> set cpus" by (auto elim: list_emb_set)
  with assms(1) have ok: "\<forall>c \<in> set cs. cpu_down_result e c = 0" by blast
  then have all: "{c \<in> set cs. cpu_down_result e c = 0} = set cs" by blast
  have "r = None"
  proof (cases r)
    case (Some err)
    with cs(4) have "cs \<noteq> []" "cpu_down_result e (last cs) \<noteq> 0" by auto
    with ok show ?thesis using last_in_set by blast
  qed simp
  with cs(1,2) cs(3) [unfolded all] show ?thesis by blast
qed

text \<open>
  What the iteration does, exactly: it stops after a prefix \<open>pre\<close> of the CPUs of the
  mask, and has requested the CPUs of \<open>pre\<close> that were online, each once.
\<close>

lemma set_first_occurrences: "set (first_occurrences xs) = set xs"
  by (induction xs rule: first_occurrences.induct) auto

lemma distinct_first_occurrences: "distinct (first_occurrences xs)"
  by (induction xs rule: first_occurrences.induct) (auto simp: set_first_occurrences)










subsection \<open>jailhouse_cell_create\<close>

lemmas cell_exit_defs = kfree_config_out_def iounmap_out_def unlock_out_def kfree_def
  iounmap_def mutex_unlock_def printk_def jailhouse_ioremap_def




text \<open>What \<open>jailhouse_cell_create\<close> does once the memory of the cell is prepared.\<close>

lemma cell_create_prepared:
  assumes "user_cell e = Some new_cell" and "num_preload_images new_cell = 1"
    and "user_image e = Some img" and "kmalloc_ok e" and "user_config e = Some config"
    and "\<forall>cpu \<in> set (mask_cpus config [0..<unat (cpu_set_size (cell config))]).
           cpu_down_result e cpu = 0"
    and "\<not> (num_memory_regions (cell config) < 1 \<or> mem_size (ram config) < 1024 * 1024
           \<or> target_address img + image_size img > mem_size (ram config))"
    and "ioremap_cache e (phys_start (ram config)) (mem_size (ram config)) \<noteq> 0"
    and "copy_preload_ok e"
    and "\<not> lock_held s"
  shows "\<exists>cs. subseq cs (mask_cpus config [0..<unat (cpu_set_size (cell config))])
    \<and> set cs \<subseteq> cpu_online_mask s
    \<and> jailhouse_cell_create e s =
       (let config' = config\<lparr>cell := (cell config)
              \<lparr>name := (name (cell config))[JAILHOUSE_CELL_NAME_MAXLEN e := 0]\<rparr>\<rparr>;
            s1 = s\<lparr>offlined_cpus := offlined_cpus s \<union> set cs,
                   cpu_online_mask := cpu_online_mask s - set cs,
                   trace := trace s @ map CpuDown cs\<rparr>
        in if \<not> lock_ok e then
             (s1\<lparr>mapped := ioremap_cache e (phys_start (ram config)) (mem_size (ram config))
                    # mapped s\<rparr>, - EINTR)
           else if \<not> enabled s then (s1, - EINVAL)
           else if hc_cell_create e config' \<noteq> 0 then
             (s1\<lparr>trace := trace s1 @ [HcCellCreate config']\<rparr>, hc_cell_create e config')
           else
             (s1\<lparr>trace := trace s1 @ [HcCellCreate config',
                 Printk (CreatedCell (c_string (name (cell config'))))]\<rparr>, 0))"
proof -
  let ?config = "config\<lparr>cell := (cell config)
        \<lparr>name := (name (cell config))[JAILHOUSE_CELL_NAME_MAXLEN e := 0]\<rparr>\<rparr>"
  let ?ms = "[0..<unat (cpu_set_size (cell config))]"
  let ?s0 = "s\<lparr>kmalloced := kmalloced s + 1\<rparr>"
  obtain s1 r where loop: "mask_loop e ?config ?ms ?s0 = (s1, r)"
    by (cases "mask_loop e ?config ?ms ?s0")
  have mc: "mask_cpus ?config ?ms = mask_cpus config ?ms"
    by (simp add: mask_cpus_def)
  from loop have "offline_list e (mask_cpus config ?ms) ?s0 = (s1, r)"
    by (simp add: mask_loop_offline_list mc)
  from offline_list_all_succeed [OF assms(6) this] obtain cs where r: "r = None"
    and cs: "subseq cs (mask_cpus config ?ms)" "set cs \<subseteq> cpu_online_mask ?s0"
      "s1 = ?s0\<lparr>offlined_cpus := offlined_cpus ?s0 \<union> set cs,
              cpu_online_mask := cpu_online_mask ?s0 - set cs,
              trace := trace ?s0 @ map CpuDown cs\<rparr>"
    by blast
  have "jailhouse_cell_create e s =
       (let config' = ?config;
            s1 = s\<lparr>offlined_cpus := offlined_cpus s \<union> set cs,
                   cpu_online_mask := cpu_online_mask s - set cs,
                   trace := trace s @ map CpuDown cs\<rparr>
        in if \<not> lock_ok e then
             (s1\<lparr>mapped := ioremap_cache e (phys_start (ram config)) (mem_size (ram config))
                    # mapped s\<rparr>, - EINTR)
           else if \<not> enabled s then (s1, - EINVAL)
           else if hc_cell_create e config' \<noteq> 0 then
             (s1\<lparr>trace := trace s1 @ [HcCellCreate config']\<rparr>, hc_cell_create e config')
           else
             (s1\<lparr>trace := trace s1 @ [HcCellCreate config',
                 Printk (CreatedCell (c_string (name (cell config'))))]\<rparr>, 0))"
    using assms(1-5,7-10) loop [unfolded r cs(3)]
    by (simp add: jailhouse_cell_create_def Let_def cell_exit_defs)
  with cs(1,2) show ?thesis by auto
qed


lemma cell_create_events:
  assumes "user_config e = Some config" and "jailhouse_cell_create e s = (s', err)"
  shows "\<exists>cs rest. trace s' = trace s @ map CpuDown cs @ rest
    \<and> (rest = []
       \<or> rest = [HcCellCreate (config\<lparr>cell := (cell config)
             \<lparr>name := (name (cell config))[JAILHOUSE_CELL_NAME_MAXLEN e := 0]\<rparr>\<rparr>)]
       \<or> rest = [HcCellCreate (config\<lparr>cell := (cell config)
             \<lparr>name := (name (cell config))[JAILHOUSE_CELL_NAME_MAXLEN e := 0]\<rparr>\<rparr>),
           Printk (CreatedCell
             (c_string ((name (cell config))[JAILHOUSE_CELL_NAME_MAXLEN e := 0])))])
    \<and> (err = 0 \<longrightarrow>
         rest = [HcCellCreate (config\<lparr>cell := (cell config)
             \<lparr>name := (name (cell config))[JAILHOUSE_CELL_NAME_MAXLEN e := 0]\<rparr>\<rparr>),
           Printk (CreatedCell
             (c_string ((name (cell config))[JAILHOUSE_CELL_NAME_MAXLEN e := 0])))])"
proof (cases "\<exists>new_cell img. user_cell e = Some new_cell \<and> num_preload_images new_cell = 1
    \<and> user_image e = Some img \<and> kmalloc_ok e")
  case False
  with assms(2) have "trace s' = trace s \<and> err \<noteq> 0"
    by (auto simp: jailhouse_cell_create_def errno_defs split: option.splits if_splits)
  then show ?thesis by (intro exI [of _ "[]"]) simp
next
  case True
  let ?config = "config\<lparr>cell := (cell config)
        \<lparr>name := (name (cell config))[JAILHOUSE_CELL_NAME_MAXLEN e := 0]\<rparr>\<rparr>"
  let ?ms = "[0..<unat (cpu_set_size (cell config))]"
  let ?s0 = "s\<lparr>kmalloced := kmalloced s + 1\<rparr>"
  obtain s1 r where loop: "mask_loop e ?config ?ms ?s0 = (s1, r)"
    by (cases "mask_loop e ?config ?ms ?s0")
  then have "offline_list e (mask_cpus ?config ?ms) ?s0 = (s1, r)"
    by (simp add: mask_loop_offline_list)
  from offline_list_spec [OF this] obtain cs where cs:
    "trace s1 = trace ?s0 @ map CpuDown cs"
    "(case r of
          None \<Rightarrow> (\<forall>c \<in> set cs. cpu_down_result e c = 0)
        | Some err \<Rightarrow> cs \<noteq> [] \<and> err = cpu_down_result e (last cs) \<and> err \<noteq> 0
            \<and> (\<forall>c \<in> set (butlast cs). cpu_down_result e c = 0))"
    by blast
  then have nz: "r = Some err' \<Longrightarrow> err' \<noteq> 0" for err' by simp
  have "\<exists>rest. trace s' = trace s1 @ rest
    \<and> (rest = [] \<or> rest = [HcCellCreate ?config]
       \<or> rest = [HcCellCreate ?config,
           Printk (CreatedCell
             (c_string ((name (cell config))[JAILHOUSE_CELL_NAME_MAXLEN e := 0])))])
    \<and> (err = 0 \<longrightarrow>
         rest = [HcCellCreate ?config,
           Printk (CreatedCell
             (c_string ((name (cell config))[JAILHOUSE_CELL_NAME_MAXLEN e := 0])))])"
    using assms True loop nz
    by (auto simp: jailhouse_cell_create_def Let_def cell_exit_defs errno_defs
        split: if_splits prod.splits option.splits)
  with cs(1) show ?thesis by auto
qed

lemma upt8: "[0..<8] = [0, 1, 2, 3, 4, 5, 6, 7]"
  by (simp add: upt_rec)

lemma demo_name_terminated: "(replicate 32 (0x41::u8))[31 := 0] = replicate 31 0x41 @ [0]"
  by (simp add: numeral_eq_Suc)

lemma demo_name_c_string: "c_string (replicate 31 (0x41::u8) @ [0]) = replicate 31 0x41"
  by (simp add: c_string_def takeWhile_append)

lemma demo_mask_cpus: "mask_cpus demo_config [0..<unat (cpu_set_size (cell demo_config))] = [2, 3]"
  by (simp add: mask_cpus_def demo_config_def upt8)

lemmas demo_cell_defs = jailhouse_cell_create_def demo_env_def demo_config_def
  enabled_state_def boot_state_def demo_config_terminated_def upt8 demo_name_terminated
  demo_name_c_string cpu_mask_bit_def cpu_online_def cpu_down_def cell_exit_defs Let_def

lemma demo_cell_create: "jailhouse_cell_create demo_env enabled_state = (cell_state, 0)"
  by (auto simp add: demo_cell_defs cell_state_def)


lemma rejected_cell_create:
  "jailhouse_cell_create demo_env boot_state = (rejected_cell_state, - EINVAL)"
  by (auto simp add: demo_cell_defs rejected_cell_state_def)






text \<open>
  C9.  When the memory of the cell has been mapped and loaded and the wait for the lock is
  interrupted, \<open>jailhouse_cell_create\<close> returns \<open>-EINTR\<close> and the address returned by
  \<open>jailhouse_ioremap\<close> is still in the list of mappings: nothing has unmapped it.
\<close>

theorem cell_create_interrupted_leaves_mapping:
  assumes "user_cell e = Some new_cell" and "num_preload_images new_cell = 1"
    and "user_image e = Some img" and "kmalloc_ok e" and "user_config e = Some config"
    and "\<forall>cpu \<in> set (mask_cpus config [0..<unat (cpu_set_size (cell config))]).
           cpu_down_result e cpu = 0"
    and "\<not> (num_memory_regions (cell config) < 1 \<or> mem_size (ram config) < 1024 * 1024
           \<or> target_address img + image_size img > mem_size (ram config))"
    and "ioremap_cache e (phys_start (ram config)) (mem_size (ram config)) \<noteq> 0"
    and "copy_preload_ok e"
    and "\<not> lock_held s"
    and "\<not> lock_ok e"
  shows "snd (jailhouse_cell_create e s) = - EINTR
    \<and> mapped (fst (jailhouse_cell_create e s)) =
        ioremap_cache e (phys_start (ram config)) (mem_size (ram config)) # mapped s
    \<and> kmalloced (fst (jailhouse_cell_create e s)) = kmalloced s
    \<and> \<not> lock_held (fst (jailhouse_cell_create e s))"
proof -
  from cell_create_prepared [OF assms(1-10)] obtain cs where
    "jailhouse_cell_create e s =
       (s\<lparr>offlined_cpus := offlined_cpus s \<union> set cs,
          cpu_online_mask := cpu_online_mask s - set cs,
          trace := trace s @ map CpuDown cs,
          mapped := ioremap_cache e (phys_start (ram config)) (mem_size (ram config))
                    # mapped s\<rparr>, - EINTR)"
    using assms(11) by (auto simp: Let_def)
  with assms(10) show ?thesis by simp
qed

theorem cell_create_interrupted_leaves_mapping_witness:
  "snd (jailhouse_cell_create interrupted_env enabled_state) = - EINTR
    \<and> mapped (fst (jailhouse_cell_create interrupted_env enabled_state)) =
         [0xffffc9003bf00000, 0xffffc90040000000]
    \<and> mapped enabled_state = [0xffffc90040000000]"
  using cell_create_interrupted_leaves_mapping [of interrupted_env
      "\<lparr>config_address = 0x1000, config_size = 0x100, num_preload_images = 1\<rparr>"
      "\<lparr>source_address = 0x2000, image_size = 0x2000, target_address = 0\<rparr>"
      demo_config enabled_state]
  by (simp add: interrupted_env_def demo_env_def demo_mask_cpus enabled_state_def boot_state_def)
     (simp add: demo_config_def)

lemma terminated_name:
  fixes nm :: "u8 list"
  assumes "length nm = n + 1"
  shows "nm[n := 0] ! n = 0" and "length (nm[n := 0]) = n + 1"
    and "c_string (nm[n := 0]) = c_string (take n nm)"
    and "length (c_string (nm[n := 0])) \<le> n"
proof -
  from assms show "nm[n := 0] ! n = 0" by simp
  show "length (nm[n := 0]) = n + 1" using assms by simp
  from assms have eq: "nm[n := 0] = take n nm @ [0]"
    by (simp add: upd_conv_take_nth_drop)
  have tw: "takeWhile (\<lambda>b. b \<noteq> 0) (take n nm) = take n nm"
    if "\<forall>x \<in> set (take n nm). x \<noteq> 0"
    using that by simp
  show *: "c_string (nm[n := 0]) = c_string (take n nm)"
    unfolding eq by (simp add: c_string_def takeWhile_append tw)
  have "length (c_string (take n nm)) \<le> length (take n nm)"
    unfolding c_string_def by (rule length_takeWhile_le)
  with * assms show "length (c_string (nm[n := 0])) \<le> n" by simp
qed

text \<open>
  C10.  The descriptor copied from the caller has a \<open>name\<close> array of
  \<open>JAILHOUSE_CELL_NAME_MAXLEN + 1\<close> bytes.  Whatever the call goes on to do, the only
  descriptor it can pass to the hypervisor is the copy whose last name byte is 0, and the
  only name it can print is the string of that copy, which is the caller's name up to
  its first NUL byte or its first \<open>JAILHOUSE_CELL_NAME_MAXLEN\<close> bytes.  A call that
  returns 0 has passed this descriptor and printed this name.
\<close>

theorem cell_name_nul_terminated:
  assumes "user_config e = Some config"
    and "length (name (cell config)) = JAILHOUSE_CELL_NAME_MAXLEN e + 1"
    and "jailhouse_cell_create e s = (s', err)"
  shows "\<exists>cs rest sent. trace s' = trace s @ map CpuDown cs @ rest
    \<and> (rest = [] \<or> rest = [HcCellCreate sent]
       \<or> rest = [HcCellCreate sent, Printk (CreatedCell (c_string (name (cell sent))))])
    \<and> (err = 0 \<longrightarrow>
         rest = [HcCellCreate sent, Printk (CreatedCell (c_string (name (cell sent))))])
    \<and> sent = config\<lparr>cell := (cell config)
             \<lparr>name := (name (cell config))[JAILHOUSE_CELL_NAME_MAXLEN e := 0]\<rparr>\<rparr>
    \<and> length (name (cell sent)) = JAILHOUSE_CELL_NAME_MAXLEN e + 1
    \<and> name (cell sent) ! JAILHOUSE_CELL_NAME_MAXLEN e = 0
    \<and> c_string (name (cell sent)) =
        c_string (take (JAILHOUSE_CELL_NAME_MAXLEN e) (name (cell config)))
    \<and> length (c_string (name (cell sent))) \<le> JAILHOUSE_CELL_NAME_MAXLEN e"
proof -
  let ?sent = "config\<lparr>cell := (cell config)
             \<lparr>name := (name (cell config))[JAILHOUSE_CELL_NAME_MAXLEN e := 0]\<rparr>\<rparr>"
  from cell_create_events [OF assms(1,3)] obtain cs rest where ev:
    "trace s' = trace s @ map CpuDown cs @ rest"
    "rest = [] \<or> rest = [HcCellCreate ?sent]
       \<or> rest = [HcCellCreate ?sent, Printk (CreatedCell (c_string (name (cell ?sent))))]"
    "err = 0 \<longrightarrow>
         rest = [HcCellCreate ?sent, Printk (CreatedCell (c_string (name (cell ?sent))))]"
    by auto
  note nm = terminated_name [OF assms(2)]
  show ?thesis
  proof (intro exI [of _ cs] exI [of _ rest] exI [of _ ?sent] conjI)
    show "trace s' = trace s @ map CpuDown cs @ rest" by (rule ev(1))
    show "rest = [] \<or> rest = [HcCellCreate ?sent]
       \<or> rest = [HcCellCreate ?sent, Printk (CreatedCell (c_string (name (cell ?sent))))]"
      by (rule ev(2))
    show "err = 0 \<longrightarrow>
         rest = [HcCellCreate ?sent, Printk (CreatedCell (c_string (name (cell ?sent))))]"
      by (rule ev(3))
    show "?sent = ?sent" by (rule refl)
    show "length (name (cell ?sent)) = JAILHOUSE_CELL_NAME_MAXLEN e + 1"
      using nm(2) by simp
    show "name (cell ?sent) ! JAILHOUSE_CELL_NAME_MAXLEN e = 0" using nm(1) by simp
    show "c_string (name (cell ?sent)) =
        c_string (take (JAILHOUSE_CELL_NAME_MAXLEN e) (name (cell config)))"
      using nm(3) by simp
    show "length (c_string (name (cell ?sent))) \<le> JAILHOUSE_CELL_NAME_MAXLEN e"
      using nm(4) by simp
  qed
qed

text \<open>
  The demonstration cell has a name of 32 bytes \<open>0x41\<close> and no NUL; the hypervisor gets
  31 of them and a NUL, and 31 are printed.
\<close>

theorem cell_name_nul_terminated_witness:
  "\<exists>cs rest sent. trace cell_state = trace enabled_state @ map CpuDown cs @ rest
    \<and> rest = [HcCellCreate sent, Printk (CreatedCell (c_string (name (cell sent))))]
    \<and> name (cell sent) = replicate 31 0x41 @ [0]
    \<and> name (cell sent) ! 31 = 0
    \<and> c_string (name (cell sent)) = replicate 31 0x41"
proof -
  have pre: "user_config demo_env = Some demo_config"
    "length (name (cell demo_config)) = JAILHOUSE_CELL_NAME_MAXLEN demo_env + 1"
    by (simp_all add: demo_env_def demo_config_def)
  from cell_name_nul_terminated [OF pre demo_cell_create]
  obtain cs rest sent where
    "trace cell_state = trace enabled_state @ map CpuDown cs @ rest"
    "(0::int) = 0 \<longrightarrow>
         rest = [HcCellCreate sent, Printk (CreatedCell (c_string (name (cell sent))))]"
    "sent = demo_config\<lparr>cell := (cell demo_config)
             \<lparr>name := (name (cell demo_config))[JAILHOUSE_CELL_NAME_MAXLEN demo_env := 0]\<rparr>\<rparr>"
    "name (cell sent) ! JAILHOUSE_CELL_NAME_MAXLEN demo_env = 0"
    by (elim exE conjE)
  moreover have "JAILHOUSE_CELL_NAME_MAXLEN demo_env = 31"
    "(name (cell demo_config))[31 := 0] = replicate 31 0x41 @ [0]"
    by (simp_all add: demo_env_def demo_config_def demo_name_terminated)
  ultimately show ?thesis
    by (intro exI [of _ cs] exI [of _ rest] exI [of _ sent]) (simp add: demo_name_c_string)
qed

lemma preload_check_exact:
  fixes t sz m :: u64
  assumes "unat t + unat sz < 2 ^ 64"
  shows "t + sz > m \<longleftrightarrow> unat t + unat sz > unat m"
proof -
  from assms have "unat (t + sz) = unat t + unat sz"
    using unat_add_lem [of t sz] by simp
  then show ?thesis by (simp add: word_less_nat_alt)
qed

text \<open>
  C7 at an input where offset plus size exceeds \<open>2 ^ 64\<close>: the preload image does not
  fit into the region of 1 MiB, and the cell is created.
\<close>

theorem cell_create_preload_check_wraps:
  "user_image wrapping_image_env = Some wrapping_image
   \<and> unat (target_address wrapping_image) + unat (image_size wrapping_image) = 2 ^ 64 + 1
   \<and> unat (mem_size (ram demo_config)) = 2 ^ 20
   \<and> target_address wrapping_image + image_size wrapping_image = 1
   \<and> jailhouse_cell_create wrapping_image_env enabled_state = (cell_state, 0)"
  by (auto simp add: demo_cell_defs cell_state_def wrapping_image_env_def wrapping_image_def)

subsection \<open>The checks of the activation state\<close>

text \<open>
  C6, as the code has it.  Once the request is copied and the lock taken,
  \<open>jailhouse_enable\<close> returns \<open>-EBUSY\<close> when the hypervisor is enabled or the module
  reference cannot be taken, and the state is as before.  Once the lock is taken,
  \<open>jailhouse_disable\<close> returns \<open>-EINVAL\<close> when the hypervisor is not enabled, and the
  state is as before.  \<open>jailhouse_cell_create\<close> looks at \<open>enabled\<close> last: when all the
  steps before have succeeded and the hypervisor is not enabled it returns \<open>-EINVAL\<close>
  without calling the hypervisor, with the memory of the cell unmapped, the buffer freed
  and the lock released, but the CPUs \<open>cs\<close> it has taken offline stay offline and in
  \<open>offlined_cpus\<close>.
\<close>

theorem activation_state_checks:
  "(user_system e \<noteq> None \<and> lock_ok e \<and> \<not> lock_held s \<and> (enabled s \<or> \<not> try_module_get e)
      \<longrightarrow> jailhouse_enable e s = Some (s, - EBUSY))
   \<and> (lock_ok e \<and> \<not> lock_held s \<and> \<not> enabled s
      \<longrightarrow> jailhouse_disable e s = Some (s, - EINVAL))
   \<and> (user_cell e = Some new_cell \<and> num_preload_images new_cell = 1
       \<and> user_image e = Some img \<and> kmalloc_ok e \<and> user_config e = Some config
       \<and> (\<forall>cpu \<in> set (mask_cpus config [0..<unat (cpu_set_size (cell config))]).
             cpu_down_result e cpu = 0)
       \<and> \<not> (num_memory_regions (cell config) < 1 \<or> mem_size (ram config) < 1024 * 1024
             \<or> target_address img + image_size img > mem_size (ram config))
       \<and> ioremap_cache e (phys_start (ram config)) (mem_size (ram config)) \<noteq> 0
       \<and> copy_preload_ok e \<and> lock_ok e \<and> \<not> lock_held s \<and> \<not> enabled s
      \<longrightarrow> (\<exists>cs. set cs \<subseteq> cpu_online_mask s
            \<and> jailhouse_cell_create e s =
                (s\<lparr>offlined_cpus := offlined_cpus s \<union> set cs,
                   cpu_online_mask := cpu_online_mask s - set cs,
                   trace := trace s @ map CpuDown cs\<rparr>, - EINVAL)))"
proof (intro conjI impI)
  assume "user_system e \<noteq> None \<and> lock_ok e \<and> \<not> lock_held s
    \<and> (enabled s \<or> \<not> try_module_get e)"
  then show "jailhouse_enable e s = Some (s, - EBUSY)"
    by (auto simp: jailhouse_enable_def error_unlock_def mutex_unlock_def)
next
  assume "lock_ok e \<and> \<not> lock_held s \<and> \<not> enabled s"
  then show "jailhouse_disable e s = Some (s, - EINVAL)"
    by (auto simp: jailhouse_disable_def mutex_unlock_def)
next
  assume a: "user_cell e = Some new_cell \<and> num_preload_images new_cell = 1
       \<and> user_image e = Some img \<and> kmalloc_ok e \<and> user_config e = Some config
       \<and> (\<forall>cpu \<in> set (mask_cpus config [0..<unat (cpu_set_size (cell config))]).
             cpu_down_result e cpu = 0)
       \<and> \<not> (num_memory_regions (cell config) < 1 \<or> mem_size (ram config) < 1024 * 1024
             \<or> target_address img + image_size img > mem_size (ram config))
       \<and> ioremap_cache e (phys_start (ram config)) (mem_size (ram config)) \<noteq> 0
       \<and> copy_preload_ok e \<and> lock_ok e \<and> \<not> lock_held s \<and> \<not> enabled s"
  then have p: "user_cell e = Some new_cell" "num_preload_images new_cell = 1"
    "user_image e = Some img" "kmalloc_ok e" "user_config e = Some config"
    "\<forall>cpu \<in> set (mask_cpus config [0..<unat (cpu_set_size (cell config))]).
           cpu_down_result e cpu = 0"
    "\<not> (num_memory_regions (cell config) < 1 \<or> mem_size (ram config) < 1024 * 1024
           \<or> target_address img + image_size img > mem_size (ram config))"
    "ioremap_cache e (phys_start (ram config)) (mem_size (ram config)) \<noteq> 0"
    "copy_preload_ok e" "\<not> lock_held s"
    by simp_all
  from cell_create_prepared [OF p]
  have "\<exists>cs. subseq cs (mask_cpus config [0..<unat (cpu_set_size (cell config))])
    \<and> set cs \<subseteq> cpu_online_mask s
    \<and> jailhouse_cell_create e s =
       (let config' = config\<lparr>cell := (cell config)
              \<lparr>name := (name (cell config))[JAILHOUSE_CELL_NAME_MAXLEN e := 0]\<rparr>\<rparr>;
            s1 = s\<lparr>offlined_cpus := offlined_cpus s \<union> set cs,
                   cpu_online_mask := cpu_online_mask s - set cs,
                   trace := trace s @ map CpuDown cs\<rparr>
        in if \<not> lock_ok e then
             (s1\<lparr>mapped := ioremap_cache e (phys_start (ram config)) (mem_size (ram config))
                    # mapped s\<rparr>, - EINTR)
           else if \<not> enabled s then (s1, - EINVAL)
           else if hc_cell_create e config' \<noteq> 0 then
             (s1\<lparr>trace := trace s1 @ [HcCellCreate config']\<rparr>, hc_cell_create e config')
           else
             (s1\<lparr>trace := trace s1 @ [HcCellCreate config',
                 Printk (CreatedCell (c_string (name (cell config'))))]\<rparr>, 0))" .
  then obtain cs where "set cs \<subseteq> cpu_online_mask s"
    "jailhouse_cell_create e s =
                (s\<lparr>offlined_cpus := offlined_cpus s \<union> set cs,
                   cpu_online_mask := cpu_online_mask s - set cs,
                   trace := trace s @ map CpuDown cs\<rparr>, - EINVAL)"
    using a by (auto simp: Let_def)
  then show "\<exists>cs. set cs \<subseteq> cpu_online_mask s
            \<and> jailhouse_cell_create e s =
                (s\<lparr>offlined_cpus := offlined_cpus s \<union> set cs,
                   cpu_online_mask := cpu_online_mask s - set cs,
                   trace := trace s @ map CpuDown cs\<rparr>, - EINVAL)"
    by blast
qed

theorem activation_state_checks_witness:
  "jailhouse_enable demo_env enabled_state = Some (enabled_state, - EBUSY)
   \<and> jailhouse_disable demo_env boot_state = Some (boot_state, - EINVAL)
   \<and> (\<exists>cs. set cs \<subseteq> cpu_online_mask boot_state
        \<and> jailhouse_cell_create demo_env boot_state =
            (boot_state\<lparr>offlined_cpus := offlined_cpus boot_state \<union> set cs,
               cpu_online_mask := cpu_online_mask boot_state - set cs,
               trace := trace boot_state @ map CpuDown cs\<rparr>, - EINVAL))"
  using activation_state_checks [of demo_env enabled_state]
    activation_state_checks [of demo_env boot_state
      "\<lparr>config_address = 0x1000, config_size = 0x100, num_preload_images = 1\<rparr>"
      "\<lparr>source_address = 0x2000, image_size = 0x2000, target_address = 0\<rparr>"
      demo_config]
  by (simp add: demo_env_def demo_mask_cpus enabled_state_def boot_state_def)
     (simp add: demo_config_def)

text \<open>
  C6 as stated fails.  The hypervisor is not enabled, and \<open>jailhouse_cell_create\<close>
  returns \<open>-EINVAL\<close> after taking CPUs 2 and 3 offline.  And with the hypervisor enabled,
  \<open>jailhouse_enable\<close> returns \<open>-EINTR\<close>, not \<open>-EBUSY\<close>, when the wait for the lock is
  interrupted.
\<close>

theorem cell_create_not_enabled_counterexample:
  "\<not> enabled boot_state
   \<and> jailhouse_cell_create demo_env boot_state = (rejected_cell_state, - EINVAL)
   \<and> offlined_cpus boot_state = {}
   \<and> offlined_cpus rejected_cell_state = {2, 3}
   \<and> cpu_online_mask boot_state = {0, 1, 2, 3}
   \<and> cpu_online_mask rejected_cell_state = {0, 1}
   \<and> enabled enabled_state
   \<and> jailhouse_enable interrupted_env enabled_state = Some (enabled_state, - EINTR)"
  by (simp add: rejected_cell_create)
     (simp add: boot_state_def rejected_cell_state_def enabled_state_def interrupted_env_def
       demo_env_def jailhouse_enable_def)

end
